theory Spec2Isabelle
  imports Main
begin

section \<open>JavaScript values used by the blog handler\<close>

text \<open>
  A thrown value: the code only ever reads its \<open>message\<close>. \<open>Error\<close> is what
  \<open>ga\<close> throws, \<open>TypeError\<close> is what the runtime throws when something that is not
  a function is called.
\<close>

datatype js_error = Error (message: string) | TypeError (message: string)

text \<open>An outbound HTTP message: status, header list, body (\<open>None\<close> is a null body).\<close>

record response =
  status :: nat
  headers :: "(string \<times> string) list"
  body :: "string option"

text \<open>What a call or an awaited promise yields: a thrown error or a response.\<close>

type_synonym outcome = "js_error + response"

text \<open>
  The result of \<open>new URL(req.url)\<close> for an http(s) request, by component. The
  components are the serialised ones: \<open>protocol\<close> ends with a colon, \<open>port\<close> is
  empty for the default port, \<open>search\<close> and \<open>hash\<close> are empty or start with
  \<open>?\<close> and \<open>#\<close>. A pathname is ASCII (the parser percent-encodes), so one
  \<open>char\<close> is one UTF-16 code unit and \<open>length\<close> is the JavaScript length.
\<close>

record URL =
  protocol :: string
  username :: string
  password :: string
  hostname :: string
  port :: string
  pathname :: string
  search :: string
  hash :: string

definition host :: "URL \<Rightarrow> string" where
  "host u = hostname u @ (if port u = [] then [] else '':'' @ port u)"

definition origin :: "URL \<Rightarrow> string" where
  "origin u = protocol u @ ''//'' @ host u"

definition userinfo :: "URL \<Rightarrow> string" where
  "userinfo u =
     (if username u = [] \<and> password u = [] then []
      else username u @ (if password u = [] then [] else '':'' @ password u) @ ''@'')"

definition href :: "URL \<Rightarrow> string" where
  "href u = protocol u @ ''//'' @ userinfo u @ host u @ pathname u @ search u @ hash u"

record request =
  url :: URL
  req_method :: string
  req_headers :: "(string \<times> string) list"

datatype net_addr = NetAddr (transport: string) (addr_hostname: string) (addr_port: nat)

record conn_info =
  localAddr :: net_addr
  remoteAddr :: net_addr

subsection \<open>String methods\<close>

definition startsWith :: "string \<Rightarrow> string \<Rightarrow> bool" where
  "startsWith s p = (take (length p) s = p)"

definition endsWith :: "string \<Rightarrow> string \<Rightarrow> bool" where
  "endsWith s p = (length p \<le> length s \<and> drop (length s - length p) s = p)"

text \<open>\<open>s.slice(start, end)\<close>: a negative index counts from the end, both are clamped.\<close>

definition slice :: "string \<Rightarrow> int \<Rightarrow> int option \<Rightarrow> string" where
  "slice s start end' =
     (let len = int (length s);
          from = (if start < 0 then max (len + start) 0 else min start len);
          to = (case end' of
                  None \<Rightarrow> len
                | Some e \<Rightarrow> if e < 0 then max (len + e) 0 else min e len)
      in take (nat (to - from)) (drop (nat from) s))"

section \<open>Settings, state and context (types.d.ts)\<close>

datatype og_image = OgString string | OgObject (og_url: string) (og_twitterCard: string)

datatype favicon = FavString string | FavObject (light: "string option") (dark: "string option")

datatype theme = Dark | Light | Auto

text \<open>
  \<open>BlogSettings\<close> without its \<open>middlewares\<close> field. An absent optional field is
  \<open>None\<close>. The fields holding virtual DOM nodes and link lists (\<open>quickLinks\<close>,
  \<open>sections\<close>, \<open>header\<close>, \<open>footer\<close>), \<open>unocss\<close>, and \<open>port\<close> and
  \<open>hostname\<close> (read by \<open>blog\<close> only, for \<open>serve\<close>) are read by no function
  modelled here and are left out.
\<close>

record blog_settings =
  title :: "string option"
  description :: "string option"
  avatar :: "string option"
  avatarClass :: "string option"
  cover :: "string option"
  coverTextColor :: "string option"
  author :: "string option"
  style :: "string option"
  ogImage :: "og_image option"
  lang :: "string option"
  canonicalUrl :: "string option"
  theme :: "theme option"
  favicon :: "favicon option"

text \<open>
  \<open>BlogContext\<close>. Its \<open>next\<close> member is not a field: calling it is the
  \<open>Next\<close> constructor of a middleware's program below. In the source
  \<open>ctx.state\<close> is the whole \<open>BlogState\<close>, middleware list included; a record
  cannot hold functions that take the record itself, so here \<open>state\<close> is the state
  without the middleware list. No middleware of this repository reads
  \<open>ctx.state.middlewares\<close>.
\<close>

record blog_context =
  state :: blog_settings
  connInfo :: conn_info

section \<open>Programs that may call \<open>ctx.next()\<close>\<close>

text \<open>
  The effects the code has on the outside world: the analytics report of \<open>ga\<close> (key,
  request, connection, response, caught error; the start time is real time and is not
  recorded), \<open>console.error\<close> of \<open>redirects\<close>, and the registration of a
  hot-reload socket.
\<close>

datatype event =
    GaReport string request conn_info response "js_error option"
  | ConsoleError js_error
  | HmrSocketAdd request

text \<open>
  A middleware or handler invocation, as the tree of what it does: return a response,
  throw, perform an effect and go on, or call \<open>ctx.next()\<close> and go on with what the
  call yields. The continuation of \<open>Next\<close> receives \<open>Inl e\<close> when the call
  throws or its promise rejects, which is where a \<open>try\<close>/\<open>catch\<close> around
  \<open>await ctx.next()\<close> takes its error from; code with no \<open>catch\<close> continues
  with \<open>Throw e\<close>. An \<open>await\<close> is sequencing: each request is handled by one
  chain of awaits, and a program that starts \<open>next()\<close> without awaiting it is outside
  this model.
\<close>

datatype prog =
    Return response
  | Throw js_error
  | Effect event prog
  | Next "outcome \<Rightarrow> prog"

type_synonym blog_middleware = "request \<Rightarrow> blog_context \<Rightarrow> prog"

text \<open>\<open>BlogState extends BlogSettings\<close>: the settings with the middleware list.\<close>

record blog_state = blog_settings +
  middlewares :: "blog_middleware list option"

text \<open>Returning the result of an external call: its response, or its error rethrown.\<close>

definition settle :: "outcome \<Rightarrow> prog" where
  "settle out = (case out of Inl e \<Rightarrow> Throw e | Inr r \<Rightarrow> Return r)"

text \<open>The immediate subprograms of a program, for the termination of \<open>run\<close>.\<close>

inductive_set subprog :: "(prog \<times> prog) set" where
  sub_Effect: "(p, Effect ev p) \<in> subprog"
| sub_Next: "(k out, Next k) \<in> subprog"

inductive_cases subprog_ReturnE: "(q, Return r) \<in> subprog"
inductive_cases subprog_ThrowE: "(q, Throw e) \<in> subprog"
inductive_cases subprog_EffectE: "(q, Effect ev p) \<in> subprog"
inductive_cases subprog_NextE: "(q, Next k) \<in> subprog"

text \<open>
  Running a program against the queue \<open>handlers\<close> of pending steps, which is what
  \<open>composeMiddlewares\<close> does with its closures. The result is the outcome, the queue
  that is left, and the effects in the order they happened. \<open>ctx.next()\<close> is
  \<^verbatim>\<open>const handler = handlers.shift()!; return Promise.resolve(handler());\<close>
  so it takes the first pending step off the queue and runs it against the rest; on the
  empty queue \<open>shift\<close> gives \<open>undefined\<close> and calling it throws a TypeError.
\<close>

function run :: "prog \<Rightarrow> prog list \<Rightarrow> outcome \<times> prog list \<times> event list" where
  "run (Return r) handlers = (Inr r, handlers, [])"
| "run (Throw e) handlers = (Inl e, handlers, [])"
| "run (Effect ev p) handlers =
     (case run p handlers of (out, rest, evs) \<Rightarrow> (out, rest, ev # evs))"
| "run (Next k) handlers =
     (case handlers of
        [] \<Rightarrow> run (k (Inl (TypeError ''handler is not a function''))) []
      | h # queue \<Rightarrow>
          (case run h queue of (out, rest, evs) \<Rightarrow>
             (case run (k out) rest of (out', rest', evs') \<Rightarrow> (out', rest', evs @ evs'))))"
  by pat_completeness auto

lemma wf_subprog: "wf subprog"
proof (rule wfUNIVI)
  fix P :: "prog \<Rightarrow> bool" and x
  assume step: "\<forall>x. (\<forall>y. (y, x) \<in> subprog \<longrightarrow> P y) \<longrightarrow> P x"
  show "P x"
  proof (induction x)
    case (Return r)
    show ?case using step by (blast elim: subprog_ReturnE)
  next
    case (Throw e)
    show ?case using step by (blast elim: subprog_ThrowE)
  next
    case (Effect ev p)
    then show ?case using step by (blast elim: subprog_EffectE)
  next
    case (Next k)
    have "\<forall>y. (y, Next k) \<in> subprog \<longrightarrow> P y"
      using Next.IH by (auto elim!: subprog_NextE)
    then show ?case using step by blast
  qed
qed

lemma run_shrinks:
  "run_dom (p, hs) \<Longrightarrow> length (fst (snd (run p hs))) \<le> length hs"
proof (induction p hs rule: run.pinduct)
  case (1 r handlers)
  then show ?case by (simp add: run.psimps)
next
  case (2 e handlers)
  then show ?case by (simp add: run.psimps)
next
  case (3 ev p handlers)
  then show ?case by (auto simp: run.psimps split: prod.splits)
next
  case (4 k handlers)
  then show ?case
    by (cases handlers) (fastforce simp: run.psimps split: prod.splits)+
qed

termination run
  apply (relation "inv_image (less_than <*lex*> subprog) (\<lambda>(p, hs). (length hs, p))")
  subgoal by (intro wf_inv_image wf_lex_prod wf_less_than wf_subprog)
  subgoal by (simp add: sub_Effect)
  subgoal by (simp add: sub_Next)
  subgoal by simp
  subgoal premises prems for k handlers h queue
    using prems run_shrinks[of h queue] by (cases "run h queue") (auto simp: sub_Next)
  done

text \<open>What one call of \<open>ctx.next()\<close> yields when the queue is \<open>handlers\<close>.\<close>

definition ctx_next :: "prog list \<Rightarrow> outcome \<times> prog list \<times> event list" where
  "ctx_next handlers =
     (case handlers of
        [] \<Rightarrow> (Inl (TypeError ''handler is not a function''), [], [])
      | h # queue \<Rightarrow> run h queue)"

lemma run_Next:
  "run (Next k) hs =
     (case ctx_next hs of (out, rest, evs) \<Rightarrow>
        (case run (k out) rest of (out', rest', evs') \<Rightarrow> (out', rest', evs @ evs')))"
  by (cases hs) (simp_all add: ctx_next_def split: prod.splits)

declare run.simps(4) [simp del]

section \<open>The inner handler and its collaborators (blog.tsx)\<close>

datatype link =
  Link (link_href: string) (link_rel: string) (link_type: "string option")
    (link_media: "string option")

text \<open>The body handed to the renderer: the \<open>Index\<close> component applied to the state.\<close>

datatype vnode = Index blog_settings

text \<open>
  The options object passed to \<open>html\<close>. A \<open>meta\<close> entry whose value is
  \<open>null\<close> or \<open>undefined\<close> is \<open>None\<close>; \<open>scripts\<close> is \<open>None\<close> when
  \<open>undefined\<close>.
\<close>

record html_options =
  html_lang :: string
  html_scripts :: "string list option"
  html_links :: "link list"
  html_title :: string
  html_meta :: "(string \<times> string option) list"
  html_styles :: "string list"
  html_body :: vnode

text \<open>
  What the module takes from outside: the constants \<open>IS_DEV\<close> (from the command
  line) and \<open>HMR_CLIENT\<close> (the hot-reload client script), the renderer \<open>html\<close>
  and the file server \<open>serveDir\<close> of deps.ts, and \<open>Deno.upgradeWebSocket\<close>
  (of which only the response is kept). Each external call yields a response or throws.
\<close>

record environment =
  IS_DEV :: bool
  HMR_CLIENT :: string
  html :: "html_options \<Rightarrow> outcome"
  serveDir :: "request \<Rightarrow> outcome"
  upgradeWebSocket :: "request \<Rightarrow> outcome"

text \<open>
  \<open>new Response(`Internal server error: ${err.message}`, {status: 500})\<close>; a string
  body sets the content type.
\<close>

definition errorHandler :: "js_error \<Rightarrow> response" where
  "errorHandler err =
     \<lparr>status = 500,
      headers = [(''content-type'', ''text/plain;charset=UTF-8'')],
      body = Some (''Internal server error: '' @ message err)\<rparr>"

text \<open>The favicon links pushed onto \<open>sharedHtmlOptions.links\<close>.\<close>

definition favicon_links :: "favicon option \<Rightarrow> link list" where
  "favicon_links fav =
     (case fav of
        Some (FavString s) \<Rightarrow> [Link s ''icon'' (Some ''image/x-icon'') None]
      | Some (FavObject l d) \<Rightarrow>
          (case l of
             Some href' \<Rightarrow>
               if href' \<noteq> [] then
                 [Link href' ''icon'' (Some ''image/x-icon'')
                    (Some ''(prefers-color-scheme:light)'')]
               else []
           | None \<Rightarrow> []) @
          (case d of
             Some href' \<Rightarrow>
               if href' \<noteq> [] then
                 [Link href' ''icon'' (Some ''image/x-icon'')
                    (Some ''(prefers-color-scheme:dark)'')]
               else []
           | None \<Rightarrow> [])
      | None \<Rightarrow> [])"

text \<open>\<open>a ?? b\<close> on optional strings.\<close>

definition nullish :: "'a option \<Rightarrow> 'a option \<Rightarrow> 'a option" where
  "nullish a b = (case a of Some x \<Rightarrow> Some x | None \<Rightarrow> b)"

text \<open>The argument of the \<open>html\<close> call for the index page.\<close>

definition index_options :: "environment \<Rightarrow> request \<Rightarrow> blog_settings \<Rightarrow> html_options" where
  "index_options env req blogState =
     (let canonicalUrl' =
            (case canonicalUrl blogState of
               Some c \<Rightarrow> if c \<noteq> [] then c else origin (url req)
             | None \<Rightarrow> origin (url req));
          ogImage' =
            (case ogImage blogState of
               Some (OgString s) \<Rightarrow> Some s
             | Some (OgObject u t) \<Rightarrow> Some u
             | None \<Rightarrow> None);
          twitterCard =
            (case ogImage blogState of
               Some (OgString s) \<Rightarrow> Some ''summary_large_image''
             | Some (OgObject u t) \<Rightarrow> Some t
             | None \<Rightarrow> None)
      in \<lparr>html_lang = (case lang blogState of Some l \<Rightarrow> l | None \<Rightarrow> ''en''),
          html_scripts = (if IS_DEV env then Some [''/hmr.js''] else None),
          html_links =
            Link (canonicalUrl' @ pathname (url req)) ''canonical'' None None
              # favicon_links (favicon blogState),
          html_title = (case title blogState of Some t \<Rightarrow> t | None \<Rightarrow> ''My Blog''),
          html_meta =
            [(''theme-color'', if theme blogState = Some Dark then Some ''#000'' else None),
             (''description'', description blogState),
             (''og:title'', title blogState),
             (''og:description'', description blogState),
             (''og:image'', nullish ogImage' (cover blogState)),
             (''twitter:title'', title blogState),
             (''twitter:description'', description blogState),
             (''twitter:image'', nullish ogImage' (cover blogState)),
             (''twitter:card'',
                case ogImage' of
                  Some i \<Rightarrow> if i \<noteq> [] then twitterCard else None
                | None \<Rightarrow> None)],
          html_styles =
            (case style blogState of Some s \<Rightarrow> if s \<noteq> [] then [s] else [] | None \<Rightarrow> []),
          html_body = Index blogState\<rparr>)"

text \<open>
  \<open>handler\<close>, the inner handler. The options object is built before the test of the
  path in the source; building it has no effect, so it is built here where it is used.
\<close>

definition handler :: "environment \<Rightarrow> request \<Rightarrow> blog_context \<Rightarrow> prog" where
  "handler env req ctx =
     (let blogState = state ctx;
          pathname' = pathname (url req)
      in if IS_DEV env \<and> pathname' = ''/hmr.js'' then
           Return \<lparr>status = 200,
                   headers = [(''content-type'', ''application/javascript'')],
                   body = Some (HMR_CLIENT env)\<rparr>
         else if IS_DEV env \<and> pathname' = ''/hmr'' then
           (case upgradeWebSocket env req of
              Inl e \<Rightarrow> Throw e
            | Inr response \<Rightarrow> Effect (HmrSocketAdd req) (Return response))
         else if pathname' = ''/'' then
           settle (html env (index_options env req blogState))
         else settle (serveDir env req))"

section \<open>The middlewares \<open>ga\<close> and \<open>redirects\<close>\<close>

text \<open>
  \<open>ga\<close> throws on an empty key when it is called to build the middleware;
  otherwise \<open>createReporter\<close> of deps.ts builds the reporter, a function. The
  middleware calls \<open>ctx.next()\<close> in a \<open>try\<close>; the \<open>catch\<close> replaces an error
  by a 500 response, and the \<open>finally\<close> reports to the analytics reporter either way.
\<close>

definition ga :: "string \<Rightarrow> js_error + blog_middleware" where
  "ga gaKey =
     (if length gaKey = 0 then Inl (Error ''GA key cannot be empty.'')
      else Inr (\<lambda>request ctx.
        Next (\<lambda>out.
          case out of
            Inr res \<Rightarrow> Effect (GaReport gaKey request (connInfo ctx) res None) (Return res)
          | Inl err \<Rightarrow>
              (let res =
                 \<lparr>status = 500,
                  headers = [(''content-type'', ''text/plain;charset=UTF-8'')],
                  body = Some (''Internal server error: '' @ message err)\<rparr>
               in Effect (GaReport gaKey request (connInfo ctx) res (Some err))
                    (Return res)))))"

text \<open>
  Reading \<open>redirectMap[key]\<close>. The map holds the own properties of the object. A key
  that is not an own property is looked up on \<open>Object.prototype\<close>, whose members are
  functions: truthy values that are not strings. The members are those of the Deno
  runtime, which removes the accessor \<open>__proto__\<close> from \<open>Object.prototype\<close>,
  so that name is read as \<open>undefined\<close> like any absent key.
\<close>

datatype js_value = Undefined | Str string | Inherited

definition object_prototype_keys :: "string list" where
  "object_prototype_keys =
     [''constructor'', ''__defineGetter__'', ''__defineSetter__'', ''hasOwnProperty'',
      ''__lookupGetter__'', ''__lookupSetter__'', ''isPrototypeOf'',
      ''propertyIsEnumerable'', ''toString'', ''valueOf'', ''toLocaleString'']"

definition get_property :: "(string \<rightharpoonup> string) \<Rightarrow> string \<Rightarrow> js_value" where
  "get_property obj key =
     (case obj key of
        Some v \<Rightarrow> Str v
      | None \<Rightarrow> if key \<in> set object_prototype_keys then Inherited else Undefined)"

fun truthy :: "js_value \<Rightarrow> bool" where
  "truthy Undefined = False"
| "truthy (Str s) = (s \<noteq> [])"
| "truthy Inherited = True"

text \<open>
  What the \<open>Response\<close> constructor does with a header value given in its
  \<open>headers\<close> option: it removes leading and trailing HTTP whitespace (tab, line
  feed, carriage return, space), and throws a TypeError when the value then holds a NUL,
  a line feed or a carriage return. The wording of the message is the runtime's. A
  \<open>string\<close> here holds code units below 256; a value with a larger one, which the
  constructor rejects as well, is outside this type.
\<close>

definition http_whitespace :: "char \<Rightarrow> bool" where
  "http_whitespace c = (c = CHR 0x09 \<or> c = CHR 0x0A \<or> c = CHR 0x0D \<or> c = CHR 0x20)"

definition httpTrim :: "string \<Rightarrow> string" where
  "httpTrim s = rev (dropWhile http_whitespace (rev (dropWhile http_whitespace s)))"

definition header_value_valid :: "string \<Rightarrow> bool" where
  "header_value_valid v = (CHR 0x00 \<notin> set v \<and> CHR 0x0A \<notin> set v \<and> CHR 0x0D \<notin> set v)"

definition header_value_error :: js_error where
  "header_value_error = TypeError ''Header value is not valid.''"

text \<open>
  \<open>redirects\<close>. A target that is not a string has no \<open>startsWith\<close>, so the call
  throws outside the \<open>try\<close>. The \<open>Response\<close> constructor is called outside the
  \<open>try\<close> as well, with the target, prefixed or not, as the \<open>location\<close> value.
\<close>

definition redirects :: "(string \<rightharpoonup> string) \<Rightarrow> blog_middleware" where
  "redirects redirectMap req ctx =
     (let pathname' = pathname (url req);
          maybeRedirect = get_property redirectMap pathname';
          maybeRedirect =
            (if \<not> truthy maybeRedirect then get_property redirectMap (slice pathname' 1 None)
             else maybeRedirect)
      in if truthy maybeRedirect then
           (case maybeRedirect of
              Str target \<Rightarrow>
                (let maybeRedirect' =
                       (if \<not> startsWith target ''/'' \<and> \<not> startsWith target ''http''
                        then ''/'' @ target else target);
                     location = httpTrim maybeRedirect'
                 in if header_value_valid location then
                      Return \<lparr>status = 307, headers = [(''location'', location)],
                              body = None\<rparr>
                    else Throw header_value_error)
            | _ \<Rightarrow> Throw (TypeError ''maybeRedirect.startsWith is not a function''))
         else
           Next (\<lambda>out.
             case out of
               Inr res \<Rightarrow> Return res
             | Inl e \<Rightarrow>
                 Effect (ConsoleError e)
                   (Return \<lparr>status = 500,
                            headers = [(''content-type'', ''text/plain;charset=UTF-8'')],
                            body = Some (''Internal server error: '' @ message e)\<rparr>)))"

section \<open>The chain executor and the blog handler\<close>

text \<open>
  \<open>composeMiddlewares\<close>: the reversed copy of the middleware list, one queued step
  per middleware in that order, the inner handler last; the first step of the queue is
  taken off and run. The value is the outcome of that step with the effects of the run.
\<close>

definition composeMiddlewares ::
  "blog_state \<Rightarrow> request \<Rightarrow> conn_info \<Rightarrow> (request \<Rightarrow> blog_context \<Rightarrow> prog)
     \<Rightarrow> outcome \<times> event list" where
  "composeMiddlewares state' req connInfo' inner =
     (let mws = map_option rev (middlewares state');
          ctx = \<lparr>state = blog_settings.truncate state', connInfo = connInfo'\<rparr>;
          handlers =
            (case mws of None \<Rightarrow> [] | Some ms \<Rightarrow> map (\<lambda>mw. mw req ctx) ms)
              @ [inner req ctx]
      in case handlers of
           [] \<Rightarrow> (Inl (TypeError ''handler is not a function''), [])
         | h # queue \<Rightarrow> (case run h queue of (out, rest, evs) \<Rightarrow> (out, evs)))"

text \<open>\<open>Response.redirect(url, status)\<close> for a serialised absolute URL.\<close>

definition Response_redirect :: "string \<Rightarrow> nat \<Rightarrow> response" where
  "Response_redirect location status' =
     \<lparr>status = status', headers = [(''location'', location)], body = None\<rparr>"

text \<open>
  \<open>createBlogHandler\<close>. The assignment to \<open>url.pathname\<close> parses its argument as a
  path; on the pathname of a parsed URL without its last character, a slash, the parser
  changes nothing, so the assignment is a field update.
\<close>

definition createBlogHandler ::
  "environment \<Rightarrow> blog_state \<Rightarrow> request \<Rightarrow> conn_info \<Rightarrow> outcome \<times> event list" where
  "createBlogHandler env state' req connInfo' =
     (let url' = url req
      in if length (pathname url') > 1 \<and> endsWith (pathname url') ''/'' then
           (Inr (Response_redirect
                   (href (url'\<lparr>pathname := slice (pathname url') 0 (Some (- 1))\<rparr>)) 307),
            [])
         else composeMiddlewares state' req connInfo' (handler env))"

text \<open>
  \<open>configureBlog\<close> copies the settings into a new state object, \<open>{...settings}\<close>;
  without settings the state is the empty object, every field absent.
\<close>

definition empty_state :: blog_state where
  "empty_state =
     \<lparr>title = None, description = None, avatar = None, avatarClass = None, cover = None,
      coverTextColor = None, author = None, style = None, ogImage = None, lang = None,
      canonicalUrl = None, theme = None, favicon = None, middlewares = None\<rparr>"

definition configureBlog :: "string \<Rightarrow> bool \<Rightarrow> blog_state option \<Rightarrow> blog_state" where
  "configureBlog url' isDev settings =
     (case settings of Some given \<Rightarrow> given | None \<Rightarrow> empty_state)"

section \<open>Notions used to state the properties\<close>

text \<open>A program calls \<open>ctx.next()\<close> at least once.\<close>

primrec calls_next :: "prog \<Rightarrow> bool" where
  "calls_next (Return r) = False"
| "calls_next (Throw e) = False"
| "calls_next (Effect ev p) = calls_next p"
| "calls_next (Next k) = True"

text \<open>
  A program awaits \<open>ctx.next()\<close> with no \<open>catch\<close> around it: an error of the call
  is rethrown as it is.
\<close>

primrec passes_errors :: "prog \<Rightarrow> bool" where
  "passes_errors (Return r) = False"
| "passes_errors (Throw e) = False"
| "passes_errors (Effect ev p) = passes_errors p"
| "passes_errors (Next k) = (\<forall>e. k (Inl e) = Throw e)"

text \<open>
  The queue \<open>composeMiddlewares\<close> builds before it takes the first step off: one step
  per middleware of the reversed list, then the inner handler.
\<close>

definition chain_steps ::
  "blog_state \<Rightarrow> request \<Rightarrow> conn_info \<Rightarrow> (request \<Rightarrow> blog_context \<Rightarrow> prog) \<Rightarrow> prog list" where
  "chain_steps state' req connInfo' inner =
     (let ctx = \<lparr>state = blog_settings.truncate state', connInfo = connInfo'\<rparr>
      in map (\<lambda>mw. mw req ctx) (rev (case middlewares state' of None \<Rightarrow> [] | Some ms \<Rightarrow> ms))
           @ [inner req ctx])"

text \<open>
  The inner handler called directly with the request and the context, with no step
  pending.
\<close>

definition invoke_directly ::
  "(request \<Rightarrow> blog_context \<Rightarrow> prog) \<Rightarrow> request \<Rightarrow> blog_context \<Rightarrow> outcome \<times> event list" where
  "invoke_directly inner req ctx = (case run (inner req ctx) [] of (out, rest, evs) \<Rightarrow> (out, evs))"

text \<open>
  The response a program returns of its own, without calling \<open>ctx.next()\<close>;
  \<open>None\<close> when it throws or calls \<open>ctx.next()\<close>.
\<close>

primrec own_response :: "prog \<Rightarrow> response option" where
  "own_response (Return r) = Some r"
| "own_response (Throw e) = None"
| "own_response (Effect ev p) = own_response p"
| "own_response (Next k) = None"

text \<open>
  A program delegates: it calls \<open>ctx.next()\<close> exactly once, and when the call yields
  a response it returns that response.
\<close>

primrec delegates :: "prog \<Rightarrow> bool" where
  "delegates (Return r) = False"
| "delegates (Throw e) = False"
| "delegates (Effect ev p) = delegates p"
| "delegates (Next k) =
     ((\<forall>r. own_response (k (Inr r)) = Some r) \<and> (\<forall>e. \<not> calls_next (k (Inl e))))"

text \<open>
  The end of \<open>redirects\<close>: \<open>await ctx.next()\<close> in a \<open>try\<close> whose \<open>catch\<close>
  logs the error and answers 500.
\<close>

definition await_next_or_500 :: prog where
  "await_next_or_500 =
     Next (\<lambda>out.
       case out of
         Inr res \<Rightarrow> Return res
       | Inl e \<Rightarrow>
           Effect (ConsoleError e)
             (Return \<lparr>status = 500,
                      headers = [(''content-type'', ''text/plain;charset=UTF-8'')],
                      body = Some (''Internal server error: '' @ message e)\<rparr>))"

text \<open>
  What \<open>redirects\<close> does with a target it has found. \<open>redirect_location\<close> is the
  target as it is when it starts with a slash or with the four characters \<open>http\<close>,
  otherwise with a slash put in front. \<open>redirect_answer\<close> is the call of the
  \<open>Response\<close> constructor with that location: the 307 response whose
  \<open>location\<close> is the trimmed value, or the TypeError for a value that is not valid.
\<close>

definition redirect_location :: "string \<Rightarrow> string" where
  "redirect_location target =
     (if startsWith target ''/'' \<or> startsWith target ''http'' then target else ''/'' @ target)"

definition redirect_answer :: "string \<Rightarrow> prog" where
  "redirect_answer target =
     (if header_value_valid (httpTrim (redirect_location target)) then
        Return \<lparr>status = 307,
                headers = [(''location'', httpTrim (redirect_location target))],
                body = None\<rparr>
      else Throw header_value_error)"




text \<open>A program calls \<open>ctx.next()\<close> at most once, whatever the call yields.\<close>

primrec at_most_once :: "prog \<Rightarrow> bool" where
  "at_most_once (Return r) = True"
| "at_most_once (Throw e) = True"
| "at_most_once (Effect ev p) = at_most_once p"
| "at_most_once (Next k) = (\<forall>out. \<not> calls_next (k out))"

text \<open>
  The chain as nested wrappers, which is how the specification describes it.
  \<open>resolve p d\<close> is what the program \<open>p\<close> yields, with its effects, when its call
  of \<open>ctx.next()\<close> resolves to the outcome and the effects \<open>d\<close> of the remainder
  of the chain; \<open>chain_result\<close> of a list of steps is the first step resolved against
  the \<open>chain_result\<close> of the steps after it.
\<close>

primrec resolve :: "prog \<Rightarrow> outcome \<times> event list \<Rightarrow> outcome \<times> event list" where
  "resolve (Return r) d = (Inr r, [])"
| "resolve (Throw e) d = (Inl e, [])"
| "resolve (Effect ev p) d = (case resolve p d of (out, evs) \<Rightarrow> (out, ev # evs))"
| "resolve (Next k) d = (case resolve (k (fst d)) d of (out, evs) \<Rightarrow> (out, snd d @ evs))"

fun chain_result :: "prog list \<Rightarrow> outcome \<times> event list" where
  "chain_result [] = (Inl (TypeError ''handler is not a function''), [])"
| "chain_result (p # ps) = resolve p (chain_result ps)"

text \<open>
  The executor as the specification states it: the nested chain of the middlewares in
  the order the caller configured them, then the inner handler.
\<close>

definition executor_in_caller_order ::
  "blog_state \<Rightarrow> request \<Rightarrow> conn_info \<Rightarrow> (request \<Rightarrow> blog_context \<Rightarrow> prog)
     \<Rightarrow> outcome \<times> event list" where
  "executor_in_caller_order state' req connInfo' inner =
     (let ctx = \<lparr>state = blog_settings.truncate state', connInfo = connInfo'\<rparr>
      in chain_result
           (map (\<lambda>mw. mw req ctx) (case middlewares state' of None \<Rightarrow> [] | Some ms \<Rightarrow> ms)
              @ [inner req ctx]))"

text \<open>What the caller of the executor sees of a run: the outcome and the effects.\<close>

definition observed :: "outcome \<times> prog list \<times> event list \<Rightarrow> outcome \<times> event list" where
  "observed res = (case res of (out, rest, evs) \<Rightarrow> (out, evs))"

text \<open>
  The response of the first step of a queue that returns one of its own: the response
  of a middleware that short-circuits or, when there is none, of the inner handler.
\<close>

fun terminal_response :: "prog list \<Rightarrow> response option" where
  "terminal_response [] = None"
| "terminal_response (p # ps) =
     (case own_response p of Some r \<Rightarrow> Some r | None \<Rightarrow> terminal_response ps)"

section \<open>The inputs of the repository's tests\<close>

text \<open>\<open>CONN_INFO\<close>, \<open>BLOG_SETTINGS\<close> and the requests of the test file.\<close>

definition CONN_INFO :: conn_info where
  "CONN_INFO =
     \<lparr>localAddr = NetAddr ''tcp'' ''0.0.0.0'' 8000,
      remoteAddr = NetAddr ''tcp'' ''0.0.0.0'' 8001\<rparr>"

definition test_redirect_map :: "string \<rightharpoonup> string" where
  "test_redirect_map =
     [''/to_second'' \<mapsto> ''second'',
      ''/to_second_with_slash'' \<mapsto> ''/second'',
      ''/external_redirect'' \<mapsto> ''https://example.com'',
      ''second.html'' \<mapsto> ''second'']"

definition no_settings :: "blog_settings" where
  "no_settings = blog_settings.truncate empty_state"

definition BLOG_SETTINGS :: blog_state where
  "BLOG_SETTINGS =
     configureBlog ''testdata/main.js'' False
       (Some (empty_state\<lparr>author := Some ''The author'', title := Some ''Test blog'',
                description := Some ''This is some description.'', lang := Some ''en-GB'',
                middlewares := Some [redirects test_redirect_map]\<rparr>))"

text \<open>\<open>new Request("https://blog.deno.dev" + path)\<close>.\<close>

definition test_request :: "string \<Rightarrow> request" where
  "test_request path =
     \<lparr>url = \<lparr>protocol = ''https:'', username = [], password = [],
              hostname = ''blog.deno.dev'', port = [], pathname = path, search = [],
              hash = []\<rparr>,
      req_method = ''GET'', req_headers = []\<rparr>"

text \<open>
  An environment to run the handler in: not in development mode, a renderer that
  answers 200 with the page title as body, a file server that finds nothing.
\<close>

definition test_env :: environment where
  "test_env =
     \<lparr>IS_DEV = False, HMR_CLIENT = ''let socket;'',
      html = (\<lambda>opts. Inr \<lparr>status = 200,
                            headers = [(''content-type'', ''text/html; charset=utf-8'')],
                            body = Some (html_title opts)\<rparr>),
      serveDir = (\<lambda>req. Inr \<lparr>status = 404, headers = [], body = Some ''Not Found''\<rparr>),
      upgradeWebSocket = (\<lambda>req. Inl (TypeError ''Invalid Header''))\<rparr>"

text \<open>
  Further inputs: two redirect middlewares that map the same path to different targets,
  a middleware that throws, and one that calls \<open>ctx.next()\<close> twice.
\<close>

definition two_redirects :: blog_state where
  "two_redirects =
     BLOG_SETTINGS\<lparr>middlewares :=
       Some [redirects [''/a'' \<mapsto> ''first''], redirects [''/a'' \<mapsto> ''second'']]\<rparr>"

definition throwing_middleware :: blog_middleware where
  "throwing_middleware req ctx = Throw (Error ''boom'')"

definition twice_middleware :: blog_middleware where
  "twice_middleware req ctx = Next (\<lambda>first. Next settle)"

section \<open>Facts about the string methods\<close>

lemma slice_from_1: "slice s 1 None = drop 1 s"
  by (cases s) (simp_all add: slice_def Let_def)

lemma slice_drop_last: "slice s 0 (Some (- 1)) = butlast s"
  by (cases s rule: rev_cases) (simp_all add: slice_def Let_def)

lemma endsWith_slash: "endsWith s ''/'' \<longleftrightarrow> s \<noteq> [] \<and> last s = CHR ''/''"
  by (cases s rule: rev_cases) (simp_all add: endsWith_def)

lemma endsWith_slash_butlast: "endsWith s ''/'' \<Longrightarrow> butlast s @ ''/'' = s"
  by (cases s rule: rev_cases) (simp_all add: endsWith_def)

section \<open>The trailing-slash normalizer\<close>

text \<open>
  C2. When the path of the request URL is longer than 1 and ends with a slash, the
  handler returned by \<open>createBlogHandler\<close> answers with a 307 redirect to the request
  URL with the last character of the path removed; this holds for every state, so for
  every middleware list, and no effect happens: no middleware is invoked. For every other
  request the handler is the middleware chain applied to the same request and connection.
\<close>

theorem createBlogHandler_normalizes:
  "(length (pathname (url req)) > 1 \<and> endsWith (pathname (url req)) ''/'' \<longrightarrow>
      createBlogHandler env st req conn =
        (Inr \<lparr>status = 307,
              headers = [(''location'', href ((url req)\<lparr>pathname := butlast (pathname (url req))\<rparr>))],
              body = None\<rparr>, [])) \<and>
   (\<not> (length (pathname (url req)) > 1 \<and> endsWith (pathname (url req)) ''/'') \<longrightarrow>
      createBlogHandler env st req conn = composeMiddlewares st req conn (handler env))"
  by (simp add: createBlogHandler_def Let_def Response_redirect_def slice_drop_last)

theorem createBlogHandler_normalizes_witness:
  "createBlogHandler test_env BLOG_SETTINGS (test_request ''/about/'') CONN_INFO =
     (Inr \<lparr>status = 307, headers = [(''location'', ''https://blog.deno.dev/about'')],
           body = None\<rparr>, []) \<and>
   createBlogHandler test_env BLOG_SETTINGS (test_request ''/'') CONN_INFO =
     composeMiddlewares BLOG_SETTINGS (test_request ''/'') CONN_INFO (handler test_env)"
  using createBlogHandler_normalizes [of "test_request ''/about/''" test_env BLOG_SETTINGS CONN_INFO]
    createBlogHandler_normalizes [of "test_request ''/''" test_env BLOG_SETTINGS CONN_INFO]
  by (simp add: test_request_def endsWith_def href_def userinfo_def host_def)

text \<open>
  C8. The location of the normalizer's redirect is the whole request URL, serialised:
  scheme, credentials, host and port, the path without its final slash, the query string
  and the fragment. It is never the bare path.
\<close>

theorem normalizer_location_absolute:
  assumes "length (pathname (url req)) > 1" and "endsWith (pathname (url req)) ''/''"
  shows "\<exists>loc path'.
           fst (createBlogHandler env st req conn) = Inr (Response_redirect loc 307) \<and>
           loc = protocol (url req) @ ''//'' @ userinfo (url req) @ hostname (url req)
                   @ (if port (url req) = [] then [] else '':'' @ port (url req))
                   @ path' @ search (url req) @ hash (url req) \<and>
           path' @ ''/'' = pathname (url req) \<and>
           loc \<noteq> path'"
proof -
  let ?u = "url req"
  let ?loc = "href (?u\<lparr>pathname := butlast (pathname ?u)\<rparr>)"
  have "fst (createBlogHandler env st req conn) = Inr (Response_redirect ?loc 307)"
    using assms by (simp add: createBlogHandler_def Let_def slice_drop_last)
  moreover have "?loc = protocol ?u @ ''//'' @ userinfo ?u @ hostname ?u
                   @ (if port ?u = [] then [] else '':'' @ port ?u)
                   @ butlast (pathname ?u) @ search ?u @ hash ?u"
    by (simp add: href_def host_def userinfo_def)
  moreover have "butlast (pathname ?u) @ ''/'' = pathname ?u"
    using assms(2) by (rule endsWith_slash_butlast)
  moreover have "length ?loc > length (butlast (pathname ?u))"
    by (simp add: href_def)
  then have "?loc \<noteq> butlast (pathname ?u)" by auto
  ultimately show ?thesis by blast
qed

theorem normalizer_location_absolute_witness:
  "fst (createBlogHandler test_env BLOG_SETTINGS
          (\<lparr>url = \<lparr>protocol = ''http:'', username = [], password = [],
                   hostname = ''localhost'', port = ''8000'', pathname = ''/a/b/'',
                   search = ''?q=1'', hash = []\<rparr>,
            req_method = ''GET'', req_headers = []\<rparr>) CONN_INFO)
     = Inr (Response_redirect ''http://localhost:8000/a/b?q=1'' 307)"
  using normalizer_location_absolute
    [of "\<lparr>url = \<lparr>protocol = ''http:'', username = [], password = [],
                 hostname = ''localhost'', port = ''8000'', pathname = ''/a/b/'',
                 search = ''?q=1'', hash = []\<rparr>,
          req_method = ''GET'', req_headers = []\<rparr>" test_env BLOG_SETTINGS CONN_INFO]
  by (auto simp: endsWith_def userinfo_def)

section \<open>The analytics middleware\<close>

text \<open>
  C9. \<open>ga\<close> called with the empty key throws the error "GA key cannot be empty." and
  builds no middleware, so the error happens before any request; called with any other
  key it returns a middleware.
\<close>

theorem ga_empty_key:
  "ga [] = Inl (Error ''GA key cannot be empty.'') \<and>
   (gaKey \<noteq> [] \<longrightarrow> (\<exists>mw. ga gaKey = Inr mw))"
  by (simp add: ga_def)

theorem ga_empty_key_witness:
  "ga [] = Inl (Error ''GA key cannot be empty.'') \<and>
   (\<exists>mw. ga ''GA-ANALYTICS-KEY'' = Inr mw)"
  using ga_empty_key [of "''GA-ANALYTICS-KEY''"] by simp

section \<open>The chain executor\<close>

lemma composeMiddlewares_steps:
  "composeMiddlewares st req conn inner =
     (case ctx_next (chain_steps st req conn inner) of (out, rest, evs) \<Rightarrow> (out, evs))"
  by (cases "middlewares st")
     (simp_all add: composeMiddlewares_def chain_steps_def ctx_next_def Let_def rev_map
        split: list.splits prod.splits)

lemma composeMiddlewares_fst:
  "fst (composeMiddlewares st req conn inner) = fst (ctx_next (chain_steps st req conn inner))"
  by (cases "ctx_next (chain_steps st req conn inner)") (simp add: composeMiddlewares_steps)

text \<open>
  C4. When the middleware list is empty or absent, what the chain executor does is to
  call the inner handler with the request and the context it built, no step pending.
\<close>

theorem empty_chain_is_inner:
  assumes "middlewares st = None \<or> middlewares st = Some []"
  shows "composeMiddlewares st req conn inner =
           invoke_directly inner req \<lparr>state = blog_settings.truncate st, connInfo = conn\<rparr>"
  using assms by (auto simp: composeMiddlewares_def invoke_directly_def)

theorem empty_chain_is_inner_witness:
  "composeMiddlewares (BLOG_SETTINGS\<lparr>middlewares := Some []\<rparr>) (test_request ''/'') CONN_INFO
       (handler test_env) =
     invoke_directly (handler test_env) (test_request ''/'')
       \<lparr>state = blog_settings.truncate (BLOG_SETTINGS\<lparr>middlewares := Some []\<rparr>),
        connInfo = CONN_INFO\<rparr> \<and>
   composeMiddlewares (BLOG_SETTINGS\<lparr>middlewares := None\<rparr>) (test_request ''/'') CONN_INFO
       (handler test_env) =
     invoke_directly (handler test_env) (test_request ''/'')
       \<lparr>state = blog_settings.truncate (BLOG_SETTINGS\<lparr>middlewares := None\<rparr>),
        connInfo = CONN_INFO\<rparr>"
  using empty_chain_is_inner [of "BLOG_SETTINGS\<lparr>middlewares := Some []\<rparr>"
          "test_request ''/''" CONN_INFO "handler test_env"]
    empty_chain_is_inner [of "BLOG_SETTINGS\<lparr>middlewares := None\<rparr>"
          "test_request ''/''" CONN_INFO "handler test_env"]
  by simp

section \<open>Errors from downstream\<close>

lemma run_passes_errors:
  "passes_errors p \<Longrightarrow> fst (ctx_next hs) = Inl e \<Longrightarrow> fst (run p hs) = Inl e"
proof (induction p)
  case (Next k)
  obtain rest evs where nx: "ctx_next hs = (Inl e, rest, evs)"
    using Next.prems(2) by (cases "ctx_next hs") auto
  have "k (Inl e) = Throw e" using Next.prems(1) by simp
  then show ?case by (simp add: run_Next nx)
qed (auto split: prod.splits)

lemma ctx_next_passes_errors:
  "\<forall>p\<in>set ps. passes_errors p \<Longrightarrow> fst (ctx_next (ps @ Throw e # rest)) = Inl e"
proof (induction ps)
  case Nil
  show ?case by (simp add: ctx_next_def)
next
  case (Cons p ps)
  then have "fst (run p (ps @ Throw e # rest)) = Inl e"
    by (intro run_passes_errors) auto
  then show ?case by (simp add: ctx_next_def)
qed


lemma run_ga:
  assumes "ga gaKey = Inr mw" and "fst (ctx_next handlers) = Inl e"
  shows "fst (run (mw req ctx) handlers) =
           Inr \<lparr>status = 500, headers = [(''content-type'', ''text/plain;charset=UTF-8'')],
                body = Some (''Internal server error: '' @ message e)\<rparr>"
proof -
  obtain rest evs where nx: "ctx_next handlers = (Inl e, rest, evs)"
    using assms(2) by (cases "ctx_next handlers") auto
  from assms(1) show ?thesis
    by (auto simp: ga_def run_Next nx Let_def split: if_splits)
qed

lemma redirects_cases:
  "(\<exists>r. redirects m req ctx = Return r) \<or>
   (\<exists>e. redirects m req ctx = Throw e) \<or>
   redirects m req ctx =
     Next (\<lambda>out. case out of
             Inr res \<Rightarrow> Return res
           | Inl e \<Rightarrow>
               Effect (ConsoleError e)
                 (Return \<lparr>status = 500,
                          headers = [(''content-type'', ''text/plain;charset=UTF-8'')],
                          body = Some (''Internal server error: '' @ message e)\<rparr>))"
  by (simp add: redirects_def Let_def split: js_value.splits)

lemma run_redirects:
  assumes "calls_next (redirects m req ctx)" and "fst (ctx_next handlers) = Inl e"
  shows "fst (run (redirects m req ctx) handlers) =
           Inr \<lparr>status = 500, headers = [(''content-type'', ''text/plain;charset=UTF-8'')],
                body = Some (''Internal server error: '' @ message e)\<rparr>"
proof -
  obtain rest evs where nx: "ctx_next handlers = (Inl e, rest, evs)"
    using assms(2) by (cases "ctx_next handlers") auto
  from redirects_cases [of m req ctx] assms(1) show ?thesis
    by (auto simp: run_Next nx)
qed

text \<open>
  C5. When the call of \<open>ctx.next()\<close> yields an error, the middleware built by \<open>ga\<close>
  returns a 500 response whose body is "Internal server error: " followed by the message
  of the error, and so does \<open>redirects\<close> whenever it gets as far as calling
  \<open>ctx.next()\<close>. The executor catches nothing: when a step of its queue throws and
  every step before it awaits \<open>ctx.next()\<close> with no catch, the executor yields that
  error.
\<close>

theorem downstream_errors:
  "(fst (ctx_next handlers) = Inl e \<and> ga gaKey = Inr mw \<longrightarrow>
      fst (run (mw req ctx) handlers) =
        Inr \<lparr>status = 500, headers = [(''content-type'', ''text/plain;charset=UTF-8'')],
             body = Some (''Internal server error: '' @ message e)\<rparr>) \<and>
   (fst (ctx_next handlers) = Inl e \<and> calls_next (redirects redirectMap req ctx) \<longrightarrow>
      fst (run (redirects redirectMap req ctx) handlers) =
        Inr \<lparr>status = 500, headers = [(''content-type'', ''text/plain;charset=UTF-8'')],
             body = Some (''Internal server error: '' @ message e)\<rparr>) \<and>
   (chain_steps st req conn inner = ps @ Throw e # rest \<and> (\<forall>p\<in>set ps. passes_errors p) \<longrightarrow>
      fst (composeMiddlewares st req conn inner) = Inl e)"
proof (intro conjI impI)
  assume "fst (ctx_next handlers) = Inl e \<and> ga gaKey = Inr mw"
  then have "ga gaKey = Inr mw" and "fst (ctx_next handlers) = Inl e" by simp_all
  then show "fst (run (mw req ctx) handlers) =
        Inr \<lparr>status = 500, headers = [(''content-type'', ''text/plain;charset=UTF-8'')],
             body = Some (''Internal server error: '' @ message e)\<rparr>"
    by (rule run_ga)
next
  assume "fst (ctx_next handlers) = Inl e \<and> calls_next (redirects redirectMap req ctx)"
  then have "calls_next (redirects redirectMap req ctx)" and "fst (ctx_next handlers) = Inl e"
    by simp_all
  then show "fst (run (redirects redirectMap req ctx) handlers) =
        Inr \<lparr>status = 500, headers = [(''content-type'', ''text/plain;charset=UTF-8'')],
             body = Some (''Internal server error: '' @ message e)\<rparr>"
    by (rule run_redirects)
next
  assume "chain_steps st req conn inner = ps @ Throw e # rest \<and> (\<forall>p\<in>set ps. passes_errors p)"
  then have "fst (ctx_next (chain_steps st req conn inner)) = Inl e"
    by (simp add: ctx_next_passes_errors)
  then show "fst (composeMiddlewares st req conn inner) = Inl e"
    by (simp add: composeMiddlewares_fst)
qed

lemma test_first_not_redirected:
  "calls_next (redirects test_redirect_map (test_request ''/first'') ctx)"
  by (simp add: redirects_def test_redirect_map_def test_request_def get_property_def
      object_prototype_keys_def slice_from_1 Let_def)

theorem downstream_errors_witness:
  "fst (run (projr (ga ''GA-ANALYTICS-KEY'') (test_request ''/first'')
               \<lparr>state = no_settings, connInfo = CONN_INFO\<rparr>) [Throw (Error ''boom'')]) =
     Inr \<lparr>status = 500, headers = [(''content-type'', ''text/plain;charset=UTF-8'')],
          body = Some ''Internal server error: boom''\<rparr> \<and>
   fst (run (redirects test_redirect_map (test_request ''/first'')
               \<lparr>state = no_settings, connInfo = CONN_INFO\<rparr>) [Throw (Error ''boom'')]) =
     Inr \<lparr>status = 500, headers = [(''content-type'', ''text/plain;charset=UTF-8'')],
          body = Some ''Internal server error: boom''\<rparr> \<and>
   fst (composeMiddlewares (BLOG_SETTINGS\<lparr>middlewares := Some [\<lambda>req ctx. Next settle]\<rparr>)
          (test_request ''/first'') CONN_INFO (\<lambda>req ctx. Throw (Error ''boom''))) =
     Inl (Error ''boom'')"
proof -
  let ?ctx = "\<lparr>state = no_settings, connInfo = CONN_INFO\<rparr>"
  have nx: "fst (ctx_next [Throw (Error ''boom'')]) = Inl (Error ''boom'')"
    by (simp add: ctx_next_def)
  have g: "ga ''GA-ANALYTICS-KEY'' = Inr (projr (ga ''GA-ANALYTICS-KEY''))"
    by (simp add: ga_def)
  have steps: "chain_steps (BLOG_SETTINGS\<lparr>middlewares := Some [\<lambda>req ctx. Next settle]\<rparr>)
                 (test_request ''/first'') CONN_INFO (\<lambda>req ctx. Throw (Error ''boom''))
               = [Next settle] @ Throw (Error ''boom'') # []"
    by (simp add: chain_steps_def)
  have pe: "\<forall>p\<in>set [Next settle]. passes_errors p"
    by (simp add: settle_def)
  show ?thesis
    using downstream_errors [of "[Throw (Error ''boom'')]" "Error ''boom''"
        "''GA-ANALYTICS-KEY''" "projr (ga ''GA-ANALYTICS-KEY'')" "test_request ''/first''" ?ctx
        test_redirect_map "BLOG_SETTINGS\<lparr>middlewares := Some [\<lambda>req ctx. Next settle]\<rparr>"
        CONN_INFO "\<lambda>req ctx. Throw (Error ''boom'')" "[Next settle]" "[]"]
      nx g steps pe test_first_not_redirected [of ?ctx]
    by simp
qed

section \<open>The redirect-map middleware\<close>

lemma slash_not_inherited: "startsWith p ''/'' \<Longrightarrow> p \<notin> set object_prototype_keys"
  by (auto simp: startsWith_def object_prototype_keys_def)

lemma delegates_await_next_or_500: "delegates await_next_or_500"
  by (simp add: await_next_or_500_def)

lemma redirects_full_key:
  assumes "m (pathname (url req)) = Some t" and "t \<noteq> []"
  shows "redirects m req ctx = redirect_answer t"
  using assms
  by (simp add: redirects_def get_property_def Let_def redirect_answer_def redirect_location_def)

lemma redirects_full_key_falsy:
  assumes "m (pathname (url req)) = Some [] \<or> m (pathname (url req)) = None"
    and "startsWith (pathname (url req)) ''/''"
  shows "redirects m req ctx =
     (case get_property m (drop 1 (pathname (url req))) of
        Str t \<Rightarrow> if t \<noteq> [] then redirect_answer t else await_next_or_500
      | Inherited \<Rightarrow> Throw (TypeError ''maybeRedirect.startsWith is not a function'')
      | Undefined \<Rightarrow> await_next_or_500)"
  using assms slash_not_inherited [of "pathname (url req)"]
  by (auto simp: redirects_def get_property_def Let_def redirect_answer_def
      redirect_location_def slice_from_1 await_next_or_500_def
      split: option.splits js_value.splits)

lemma redirects_delegates:
  assumes "m (pathname (url req)) = Some [] \<or> m (pathname (url req)) = None"
    and "startsWith (pathname (url req)) ''/''"
    and "m (drop 1 (pathname (url req))) = Some [] \<or>
         m (drop 1 (pathname (url req))) = None \<and>
         drop 1 (pathname (url req)) \<notin> set object_prototype_keys"
  shows "delegates (redirects m req ctx)"
  using assms redirects_full_key_falsy [of m req ctx]
  by (auto simp: get_property_def delegates_await_next_or_500)

lemma redirects_trimmed_key:
  assumes "m (pathname (url req)) = Some [] \<or> m (pathname (url req)) = None"
    and "startsWith (pathname (url req)) ''/''"
    and "m (drop 1 (pathname (url req))) = Some t" and "t \<noteq> []"
  shows "redirects m req ctx = redirect_answer t"
  using assms redirects_full_key_falsy [of m req ctx]
  by (auto simp: get_property_def)

lemma redirects_ignores_falsy_full_key:
  assumes "m (pathname (url req)) = Some []" and "startsWith (pathname (url req)) ''/''"
  shows "redirects m req ctx = redirects (m(pathname (url req) := None)) req ctx"
proof -
  have ne: "drop 1 (pathname (url req)) \<noteq> pathname (url req)"
    using assms(2) by (cases "pathname (url req)") (auto simp: startsWith_def dest: arg_cong [where f = length])
  have "get_property (m(pathname (url req) := None)) (drop 1 (pathname (url req)))
        = get_property m (drop 1 (pathname (url req)))"
    using ne by (simp add: get_property_def)
  then show ?thesis
    using redirects_full_key_falsy [of m req ctx] 
      redirects_full_key_falsy [of "m(pathname (url req) := None)" req ctx] assms
    by simp
qed



text \<open>
  C10, as the specification states it, fails. With the full pathname mapped to the empty
  string and the pathname without its leading slash mapped to \<open>y\<close>, the request is
  not delegated: the second lookup decides and the answer is the redirect to \<open>/y\<close>.
  With \<open>/constructor\<close> mapped to the empty string, the second lookup finds the
  function \<open>Object.prototype.constructor\<close>, and the middleware throws.
\<close>

theorem redirects_empty_target_counterexample:
  "redirects [''/a'' \<mapsto> [], ''a'' \<mapsto> ''y''] (test_request ''/a'')
       \<lparr>state = no_settings, connInfo = CONN_INFO\<rparr> =
     Return \<lparr>status = 307, headers = [(''location'', ''/y'')], body = None\<rparr> \<and>
   \<not> delegates (redirects [''/a'' \<mapsto> [], ''a'' \<mapsto> ''y''] (test_request ''/a'')
       \<lparr>state = no_settings, connInfo = CONN_INFO\<rparr>) \<and>
   redirects [''/constructor'' \<mapsto> []] (test_request ''/constructor'')
       \<lparr>state = no_settings, connInfo = CONN_INFO\<rparr> =
     Throw (TypeError ''maybeRedirect.startsWith is not a function'') \<and>
   \<not> delegates (redirects [''/constructor'' \<mapsto> []] (test_request ''/constructor'')
       \<lparr>state = no_settings, connInfo = CONN_INFO\<rparr>)"
  by (simp add: redirects_def get_property_def test_request_def Let_def startsWith_def
      slice_from_1 object_prototype_keys_def httpTrim_def http_whitespace_def
      header_value_valid_def)

text \<open>
  C10, amended. For a request whose pathname starts with a slash: when the full pathname
  is a key with a non-empty target, the middleware answers from that target
  (\<open>redirect_answer\<close>: the 307 whose location is formed from it, or the TypeError of
  the \<open>Response\<close> constructor when that location is not a valid header value),
  whatever the map holds under the pathname without its leading slash, so the second
  lookup plays no part. A full-pathname key mapped to the empty string is treated as no
  match: the middleware behaves as if the key were absent, and the second lookup decides.
  When that lookup finds a non-empty target, the middleware answers from it; when it
  finds the empty string, or finds no key and the pathname without its leading slash is
  not the name of a member of \<open>Object.prototype\<close>, the request is delegated through
  \<open>ctx.next()\<close>.
\<close>

theorem redirects_full_pathname_first:
  assumes "startsWith (pathname (url req)) ''/''"
  shows
  "(m (pathname (url req)) = Some t \<and> t \<noteq> [] \<longrightarrow>
      redirects m req ctx = redirect_answer t \<and>
      redirects (m(drop 1 (pathname (url req)) := other)) req ctx = redirect_answer t) \<and>
   (m (pathname (url req)) = Some [] \<longrightarrow>
      redirects m req ctx = redirects (m(pathname (url req) := None)) req ctx) \<and>
   (m (pathname (url req)) = Some [] \<and> m (drop 1 (pathname (url req))) = Some t \<and> t \<noteq> [] \<longrightarrow>
      redirects m req ctx = redirect_answer t) \<and>
   (m (pathname (url req)) = Some [] \<and>
    (m (drop 1 (pathname (url req))) = Some [] \<or>
     m (drop 1 (pathname (url req))) = None \<and>
     drop 1 (pathname (url req)) \<notin> set object_prototype_keys) \<longrightarrow>
      delegates (redirects m req ctx))"
proof (intro conjI impI)
  assume a: "m (pathname (url req)) = Some t \<and> t \<noteq> []"
  then show "redirects m req ctx = redirect_answer t"
    by (simp add: redirects_full_key)
  have ne: "drop 1 (pathname (url req)) \<noteq> pathname (url req)"
    using assms by (cases "pathname (url req)") (auto simp: startsWith_def dest: arg_cong [where f = length])
  then have "(m(drop 1 (pathname (url req)) := other)) (pathname (url req)) = Some t"
    using a by simp
  then show "redirects (m(drop 1 (pathname (url req)) := other)) req ctx = redirect_answer t"
    using a by (intro redirects_full_key) auto
next
  assume "m (pathname (url req)) = Some []"
  then show "redirects m req ctx = redirects (m(pathname (url req) := None)) req ctx"
    using assms by (rule redirects_ignores_falsy_full_key)
next
  assume "m (pathname (url req)) = Some [] \<and> m (drop 1 (pathname (url req))) = Some t \<and> t \<noteq> []"
  then show "redirects m req ctx = redirect_answer t"
    using assms by (intro redirects_trimmed_key) auto
next
  assume "m (pathname (url req)) = Some [] \<and>
    (m (drop 1 (pathname (url req))) = Some [] \<or>
     m (drop 1 (pathname (url req))) = None \<and>
     drop 1 (pathname (url req)) \<notin> set object_prototype_keys)"
  then show "delegates (redirects m req ctx)"
    using assms by (intro redirects_delegates) auto
qed

lemma redirect_answer_x: "redirect_answer ''x'' =
    Return \<lparr>status = 307, headers = [(''location'', ''/x'')], body = None\<rparr>"
  by (simp add: redirect_answer_def redirect_location_def startsWith_def httpTrim_def
      http_whitespace_def header_value_valid_def)

theorem redirects_full_pathname_first_witness:
  "redirects [''/a'' \<mapsto> ''x'', ''a'' \<mapsto> ''y''] (test_request ''/a'')
       \<lparr>state = no_settings, connInfo = CONN_INFO\<rparr> =
     Return \<lparr>status = 307, headers = [(''location'', ''/x'')], body = None\<rparr> \<and>
   redirects [''/a'' \<mapsto> [], ''a'' \<mapsto> ''x''] (test_request ''/a'')
       \<lparr>state = no_settings, connInfo = CONN_INFO\<rparr> =
     Return \<lparr>status = 307, headers = [(''location'', ''/x'')], body = None\<rparr> \<and>
   delegates (redirects [''/a'' \<mapsto> [], ''a'' \<mapsto> []] (test_request ''/a'')
       \<lparr>state = no_settings, connInfo = CONN_INFO\<rparr>)"
proof -
  let ?ctx = "\<lparr>state = no_settings, connInfo = CONN_INFO\<rparr>"
  have p: "startsWith (pathname (url (test_request ''/a''))) ''/''"
    by (simp add: test_request_def startsWith_def)
  have full: "redirects [''/a'' \<mapsto> ''x'', ''a'' \<mapsto> ''y''] (test_request ''/a'') ?ctx =
     Return \<lparr>status = 307, headers = [(''location'', ''/x'')], body = None\<rparr>"
    using redirects_full_pathname_first [OF p, of "[''/a'' \<mapsto> ''x'', ''a'' \<mapsto> ''y'']" "''x''"
        ?ctx "Some ''y''", THEN conjunct1]
    by (simp add: test_request_def redirect_answer_x)
  have trimmed: "redirects [''/a'' \<mapsto> [], ''a'' \<mapsto> ''x''] (test_request ''/a'') ?ctx =
     Return \<lparr>status = 307, headers = [(''location'', ''/x'')], body = None\<rparr>"
    using redirects_full_pathname_first [OF p, of "[''/a'' \<mapsto> [], ''a'' \<mapsto> ''x'']" "''x''"
        ?ctx "Some ''y''", THEN conjunct2, THEN conjunct2, THEN conjunct1]
    by (simp add: test_request_def redirect_answer_x)
  have empty: "delegates (redirects [''/a'' \<mapsto> [], ''a'' \<mapsto> []] (test_request ''/a'') ?ctx)"
    using redirects_full_pathname_first [OF p, of "[''/a'' \<mapsto> [], ''a'' \<mapsto> []]" "''x''"
        ?ctx "Some ''y''", THEN conjunct2, THEN conjunct2, THEN conjunct2]
    by (simp add: test_request_def)
  from full trimmed empty show ?thesis by blast
qed




section \<open>The inner handler\<close>

lemma calls_next_settle: "\<not> calls_next (settle out)"
  by (cases out) (simp_all add: settle_def)

lemma handler_never_calls_next: "\<not> calls_next (handler env req ctx)"
  by (simp add: handler_def Let_def calls_next_settle split: sum.splits)

text \<open>
  C6, as the specification states it, fails in development mode: the handler answers the
  path \<open>/hmr.js\<close> with the hot-reload client script, where the file server would
  have answered.
\<close>

theorem handler_dev_hmr_counterexample:
  "handler (test_env\<lparr>IS_DEV := True\<rparr>) (test_request ''/hmr.js'')
       \<lparr>state = no_settings, connInfo = CONN_INFO\<rparr> =
     Return \<lparr>status = 200, headers = [(''content-type'', ''application/javascript'')],
             body = Some ''let socket;''\<rparr> \<and>
   settle (serveDir (test_env\<lparr>IS_DEV := True\<rparr>) (test_request ''/hmr.js'')) =
     Return \<lparr>status = 404, headers = [], body = Some ''Not Found''\<rparr> \<and>
   handler (test_env\<lparr>IS_DEV := True\<rparr>) (test_request ''/hmr.js'')
       \<lparr>state = no_settings, connInfo = CONN_INFO\<rparr> \<noteq>
     settle (serveDir (test_env\<lparr>IS_DEV := True\<rparr>) (test_request ''/hmr.js''))"
  by (simp add: handler_def test_env_def test_request_def settle_def)

text \<open>
  C6, amended. For the root path the inner handler returns what the renderer \<open>html\<close>
  gives for the index options: the body is the \<open>Index\<close> component of the state, the
  first link is the canonical link made of the configured canonical URL, or of the origin
  of the request when none (or the empty string) is configured, and the path; the
  \<open>og:image\<close> entry is the open-graph image or else the cover; the \<open>theme-color\<close>
  entry is \<open>#000\<close> for the dark theme. For every other path it returns what the file
  server \<open>serveDir\<close> gives, except in development mode for \<open>/hmr.js\<close>, answered
  with the client script, and \<open>/hmr\<close>, answered by the WebSocket upgrade. It never
  calls \<open>ctx.next()\<close>.
\<close>

theorem handler_root_or_static:
  "(pathname (url req) = ''/'' \<longrightarrow>
      handler env req ctx = settle (html env (index_options env req (state ctx))) \<and>
      html_body (index_options env req (state ctx)) = Index (state ctx) \<and>
      hd (html_links (index_options env req (state ctx))) =
        Link ((case canonicalUrl (state ctx) of
                 Some c \<Rightarrow> if c \<noteq> [] then c else origin (url req)
               | None \<Rightarrow> origin (url req)) @ ''/'') ''canonical'' None None \<and>
      map_of (html_meta (index_options env req (state ctx))) ''og:image'' =
        Some (case ogImage (state ctx) of
                Some (OgString s) \<Rightarrow> Some s
              | Some (OgObject u c) \<Rightarrow> Some u
              | None \<Rightarrow> cover (state ctx)) \<and>
      map_of (html_meta (index_options env req (state ctx))) ''theme-color'' =
        Some (if theme (state ctx) = Some Dark then Some ''#000'' else None)) \<and>
   (pathname (url req) \<noteq> ''/'' \<and>
    \<not> (IS_DEV env \<and> (pathname (url req) = ''/hmr.js'' \<or> pathname (url req) = ''/hmr'')) \<longrightarrow>
      handler env req ctx = settle (serveDir env req)) \<and>
   (IS_DEV env \<and> pathname (url req) = ''/hmr.js'' \<longrightarrow>
      handler env req ctx =
        Return \<lparr>status = 200, headers = [(''content-type'', ''application/javascript'')],
                body = Some (HMR_CLIENT env)\<rparr>) \<and>
   (IS_DEV env \<and> pathname (url req) = ''/hmr'' \<longrightarrow>
      handler env req ctx =
        (case upgradeWebSocket env req of
           Inl e \<Rightarrow> Throw e
         | Inr response \<Rightarrow> Effect (HmrSocketAdd req) (Return response))) \<and>
   \<not> calls_next (handler env req ctx)"
proof (intro conjI impI)
  assume "pathname (url req) = ''/''"
  then show "handler env req ctx = settle (html env (index_options env req (state ctx)))"
    by (simp add: handler_def Let_def)
next
  show "html_body (index_options env req (state ctx)) = Index (state ctx)"
    by (simp add: index_options_def Let_def)
next
  assume "pathname (url req) = ''/''"
  then show "hd (html_links (index_options env req (state ctx))) =
        Link ((case canonicalUrl (state ctx) of
                 Some c \<Rightarrow> if c \<noteq> [] then c else origin (url req)
               | None \<Rightarrow> origin (url req)) @ ''/'') ''canonical'' None None"
    by (simp add: index_options_def Let_def)
next
  show "map_of (html_meta (index_options env req (state ctx))) ''og:image'' =
        Some (case ogImage (state ctx) of
                Some (OgString s) \<Rightarrow> Some s
              | Some (OgObject u c) \<Rightarrow> Some u
              | None \<Rightarrow> cover (state ctx))"
    by (simp add: index_options_def Let_def nullish_def split: option.splits og_image.splits)
next
  show "map_of (html_meta (index_options env req (state ctx))) ''theme-color'' =
        Some (if theme (state ctx) = Some Dark then Some ''#000'' else None)"
    by (simp add: index_options_def Let_def)
next
  assume "pathname (url req) \<noteq> ''/'' \<and>
    \<not> (IS_DEV env \<and> (pathname (url req) = ''/hmr.js'' \<or> pathname (url req) = ''/hmr''))"
  then show "handler env req ctx = settle (serveDir env req)"
    by (auto simp: handler_def Let_def)
next
  assume "IS_DEV env \<and> pathname (url req) = ''/hmr.js''"
  then show "handler env req ctx =
        Return \<lparr>status = 200, headers = [(''content-type'', ''application/javascript'')],
                body = Some (HMR_CLIENT env)\<rparr>"
    by (simp add: handler_def Let_def)
next
  assume "IS_DEV env \<and> pathname (url req) = ''/hmr''"
  then show "handler env req ctx =
        (case upgradeWebSocket env req of
           Inl e \<Rightarrow> Throw e
         | Inr response \<Rightarrow> Effect (HmrSocketAdd req) (Return response))"
    by (simp add: handler_def Let_def)
next
  show "\<not> calls_next (handler env req ctx)"
    by (rule handler_never_calls_next)
qed

theorem handler_root_or_static_witness:
  "handler test_env (test_request ''/'')
       \<lparr>state = blog_settings.truncate BLOG_SETTINGS, connInfo = CONN_INFO\<rparr> =
     Return \<lparr>status = 200, headers = [(''content-type'', ''text/html; charset=utf-8'')],
             body = Some ''Test blog''\<rparr> \<and>
   hd (html_links (index_options test_env (test_request ''/'')
         (blog_settings.truncate BLOG_SETTINGS))) =
     Link ''https://blog.deno.dev/'' ''canonical'' None None \<and>
   handler test_env (test_request ''/cat.png'')
       \<lparr>state = blog_settings.truncate BLOG_SETTINGS, connInfo = CONN_INFO\<rparr> =
     Return \<lparr>status = 404, headers = [], body = Some ''Not Found''\<rparr>"
  using handler_root_or_static [of "test_request ''/''" test_env
      "\<lparr>state = blog_settings.truncate BLOG_SETTINGS, connInfo = CONN_INFO\<rparr>"]
    handler_root_or_static [of "test_request ''/cat.png''" test_env
      "\<lparr>state = blog_settings.truncate BLOG_SETTINGS, connInfo = CONN_INFO\<rparr>"]
  by (simp add: test_request_def test_env_def BLOG_SETTINGS_def configureBlog_def
      empty_state_def blog_settings.truncate_def settle_def index_options_def Let_def
      origin_def host_def)

section \<open>The order of the chain\<close>

lemma run_no_next:
  "\<not> calls_next p \<Longrightarrow> run p hs = (fst (resolve p d), hs, snd (resolve p d))"
  by (induction p) (auto split: prod.splits)

lemma run_at_most_once:
  "at_most_once p \<Longrightarrow> observed (run p hs) = resolve p (observed (ctx_next hs))"
proof (induction p)
  case (Next k)
  obtain out rest evs where nx: "ctx_next hs = (out, rest, evs)"
    by (cases "ctx_next hs") auto
  have "\<not> calls_next (k out)" using Next.prems by simp
  then have "run (k out) rest =
      (fst (resolve (k out) (out, evs)), rest, snd (resolve (k out) (out, evs)))"
    by (rule run_no_next)
  then show ?case
    by (simp add: run_Next nx observed_def split: prod.splits)
qed (auto simp: observed_def split: prod.splits)

lemma ctx_next_chain_result:
  "\<forall>p\<in>set hs. at_most_once p \<Longrightarrow> observed (ctx_next hs) = chain_result hs"
proof (induction hs)
  case Nil
  show ?case by (simp add: ctx_next_def observed_def)
next
  case (Cons h hs)
  have "observed (ctx_next (h # hs)) = observed (run h hs)"
    by (simp add: ctx_next_def)
  also have "\<dots> = resolve h (observed (ctx_next hs))"
    using Cons.prems by (intro run_at_most_once) simp
  also have "\<dots> = resolve h (chain_result hs)"
    using Cons by simp
  finally show ?case by simp
qed

lemma composeMiddlewares_observed:
  "composeMiddlewares st req conn inner = observed (ctx_next (chain_steps st req conn inner))"
  by (simp add: composeMiddlewares_steps observed_def)

text \<open>
  C1, as the specification states it, fails. With two redirect middlewares configured
  for the same path, the executor answers with the target of the second one: the
  middleware configured last runs first. The chain in the caller's order would answer
  with the target of the first.
\<close>

theorem composeMiddlewares_caller_order_counterexample:
  "composeMiddlewares two_redirects (test_request ''/a'') CONN_INFO (handler test_env) =
     (Inr \<lparr>status = 307, headers = [(''location'', ''/second'')], body = None\<rparr>, []) \<and>
   executor_in_caller_order two_redirects (test_request ''/a'') CONN_INFO (handler test_env) =
     (Inr \<lparr>status = 307, headers = [(''location'', ''/first'')], body = None\<rparr>, [])"
  by (simp add: composeMiddlewares_def executor_in_caller_order_def two_redirects_def
      redirects_def get_property_def test_request_def startsWith_def Let_def
      httpTrim_def http_whitespace_def header_value_valid_def)

text \<open>
  C1, amended. For every non-empty middleware list the executor runs the program of the
  middleware configured last, against the queue of the other middlewares from the last
  but one back to the first, followed by the inner handler. When every step calls
  \<open>ctx.next()\<close> at most once, the result is the nested chain in that order: the call
  of \<open>ctx.next()\<close> in each middleware resolves to the outcome of the remainder of the
  chain, the middlewares configured before it, latest first, and then the inner handler.
\<close>

theorem composeMiddlewares_reverse_order:
  assumes "middlewares st = Some ms" and "ms \<noteq> []"
  shows "composeMiddlewares st req conn inner =
           observed
             (run (last ms req \<lparr>state = blog_settings.truncate st, connInfo = conn\<rparr>)
                (map (\<lambda>mw. mw req \<lparr>state = blog_settings.truncate st, connInfo = conn\<rparr>)
                     (rev (butlast ms))
                 @ [inner req \<lparr>state = blog_settings.truncate st, connInfo = conn\<rparr>])) \<and>
         ((\<forall>p\<in>set (chain_steps st req conn inner). at_most_once p) \<longrightarrow>
          composeMiddlewares st req conn inner =
            resolve (last ms req \<lparr>state = blog_settings.truncate st, connInfo = conn\<rparr>)
              (chain_result
                 (map (\<lambda>mw. mw req \<lparr>state = blog_settings.truncate st, connInfo = conn\<rparr>)
                      (rev (butlast ms))
                  @ [inner req \<lparr>state = blog_settings.truncate st, connInfo = conn\<rparr>])))"
proof -
  let ?ctx = "\<lparr>state = blog_settings.truncate st, connInfo = conn\<rparr>"
  have ms: "ms = butlast ms @ [last ms]" using assms(2) by simp
  have "chain_steps st req conn inner = map (\<lambda>mw. mw req ?ctx) (rev ms) @ [inner req ?ctx]"
    using assms(1) by (simp add: chain_steps_def Let_def)
  also have "rev ms = last ms # rev (butlast ms)"
    by (subst ms) simp
  finally have steps: "chain_steps st req conn inner =
      last ms req ?ctx # (map (\<lambda>mw. mw req ?ctx) (rev (butlast ms)) @ [inner req ?ctx])"
    by simp
  have first: "composeMiddlewares st req conn inner =
      observed (run (last ms req ?ctx)
        (map (\<lambda>mw. mw req ?ctx) (rev (butlast ms)) @ [inner req ?ctx]))"
    by (simp add: composeMiddlewares_observed steps ctx_next_def)
  have nested: "composeMiddlewares st req conn inner =
      resolve (last ms req ?ctx)
        (chain_result (map (\<lambda>mw. mw req ?ctx) (rev (butlast ms)) @ [inner req ?ctx]))"
    if once: "\<forall>p\<in>set (chain_steps st req conn inner). at_most_once p"
  proof -
    have "composeMiddlewares st req conn inner = chain_result (chain_steps st req conn inner)"
      using once by (simp add: composeMiddlewares_observed ctx_next_chain_result)
    then show ?thesis by (simp add: steps)
  qed
  from first nested show ?thesis by blast
qed

lemma at_most_once_redirects: "at_most_once (redirects m req ctx)"
  using redirects_cases [of m req ctx] by (auto split: sum.splits)

lemma no_next_at_most_once: "\<not> calls_next p \<Longrightarrow> at_most_once p"
  by (induction p) auto

lemma at_most_once_handler: "at_most_once (handler env req ctx)"
  by (intro no_next_at_most_once handler_never_calls_next)

theorem composeMiddlewares_reverse_order_witness:
  "composeMiddlewares two_redirects (test_request ''/a'') CONN_INFO (handler test_env) =
     (Inr \<lparr>status = 307, headers = [(''location'', ''/second'')], body = None\<rparr>, [])"
proof -
  let ?ctx = "\<lparr>state = blog_settings.truncate two_redirects, connInfo = CONN_INFO\<rparr>"
  have m: "middlewares two_redirects =
      Some [redirects [''/a'' \<mapsto> ''first''], redirects [''/a'' \<mapsto> ''second'']]"
    by (simp add: two_redirects_def)
  have ne: "[redirects [''/a'' \<mapsto> ''first''], redirects [''/a'' \<mapsto> ''second'']] \<noteq> []"
    by simp
  have once: "\<forall>p\<in>set (chain_steps two_redirects (test_request ''/a'') CONN_INFO (handler test_env)).
      at_most_once p"
    by (simp add: chain_steps_def Let_def m at_most_once_redirects at_most_once_handler)
  have "composeMiddlewares two_redirects (test_request ''/a'') CONN_INFO (handler test_env) =
      resolve (last [redirects [''/a'' \<mapsto> ''first''], redirects [''/a'' \<mapsto> ''second'']]
                 (test_request ''/a'') ?ctx)
        (chain_result
           (map (\<lambda>mw. mw (test_request ''/a'') ?ctx)
              (rev (butlast [redirects [''/a'' \<mapsto> ''first''],
                             redirects [''/a'' \<mapsto> ''second'']]))
            @ [handler test_env (test_request ''/a'') ?ctx]))"
    using composeMiddlewares_reverse_order [OF m ne, of "test_request ''/a''" CONN_INFO
        "handler test_env", THEN conjunct2] once
    by blast
  then show ?thesis
    by (simp add: redirects_def get_property_def test_request_def startsWith_def Let_def
      httpTrim_def http_whitespace_def header_value_valid_def)
qed


section \<open>One response for each request\<close>

lemma run_own_response: "own_response p = Some r \<Longrightarrow> fst (run p hs) = Inr r"
  by (induction p) (auto split: prod.splits)

lemma delegates_no_own_response: "delegates p \<Longrightarrow> own_response p = None"
  by (induction p) auto

lemma run_delegates:
  "delegates p \<Longrightarrow> fst (ctx_next hs) = Inr r \<Longrightarrow> fst (run p hs) = Inr r"
proof (induction p)
  case (Next k)
  obtain rest evs where nx: "ctx_next hs = (Inr r, rest, evs)"
    using Next.prems(2) by (cases "ctx_next hs") auto
  have "own_response (k (Inr r)) = Some r" using Next.prems(1) by simp
  then have "fst (run (k (Inr r)) rest) = Inr r" by (rule run_own_response)
  then show ?case by (cases "run (k (Inr r)) rest") (simp add: run_Next nx)
qed (auto split: prod.splits)

lemma ctx_next_terminal_response:
  assumes "\<forall>p\<in>set ps. own_response p \<noteq> None \<or> delegates p"
    and "own_response t = Some r0"
  shows "\<exists>r. terminal_response (ps @ [t]) = Some r \<and> fst (ctx_next (ps @ [t])) = Inr r"
  using assms(1)
proof (induction ps)
  case Nil
  show ?case using assms(2) by (simp add: ctx_next_def run_own_response)
next
  case (Cons p ps)
  then obtain r where r: "terminal_response (ps @ [t]) = Some r"
    "fst (ctx_next (ps @ [t])) = Inr r" by auto
  show ?case
  proof (cases "own_response p")
    case (Some r')
    then show ?thesis by (simp add: ctx_next_def run_own_response)
  next
    case None
    then have "delegates p" using Cons.prems by auto
    then have "fst (run p (ps @ [t])) = Inr r" using r(2) by (rule run_delegates)
    then show ?thesis using None r(1) by (simp add: ctx_next_def)
  qed
qed

lemma delegates_ga: "ga gaKey = Inr mw \<Longrightarrow> delegates (mw req ctx)"
  by (auto simp: ga_def Let_def split: if_splits)

text \<open>
  C7, as the specification states it, fails: nothing makes a middleware answer or
  delegate once. With a middleware that throws, the handler yields that error and no
  response; with a middleware that calls \<open>ctx.next()\<close> twice, the second call finds
  the queue empty and the handler yields the TypeError of that call.
\<close>

theorem one_terminal_response_counterexample:
  "fst (createBlogHandler test_env (BLOG_SETTINGS\<lparr>middlewares := Some [throwing_middleware]\<rparr>)
          (test_request ''/'') CONN_INFO) = Inl (Error ''boom'') \<and>
   fst (createBlogHandler test_env (BLOG_SETTINGS\<lparr>middlewares := Some [twice_middleware]\<rparr>)
          (test_request ''/'') CONN_INFO) = Inl (TypeError ''handler is not a function'')"
  by (simp add: createBlogHandler_def composeMiddlewares_def throwing_middleware_def
      twice_middleware_def test_request_def endsWith_def Let_def run_Next ctx_next_def
      handler_def test_env_def settle_def)

text \<open>
  C7, amended. When every middleware step either returns a response of its own without
  calling \<open>ctx.next()\<close> or delegates (calls \<open>ctx.next()\<close> exactly once and returns
  the response the call yields), and the inner handler returns a response, the handler
  returned by \<open>createBlogHandler\<close> yields exactly one response: the redirect of the
  normalizer when the path is longer than 1 and ends with a slash, and otherwise the
  response of the first step, in the order the executor runs them, that returns one of
  its own: a middleware that short-circuits or else the inner handler.
\<close>

theorem one_terminal_response:
  assumes "\<forall>p\<in>set (butlast (chain_steps st req conn (handler env))).
             own_response p \<noteq> None \<or> delegates p"
    and "own_response (handler env req \<lparr>state = blog_settings.truncate st, connInfo = conn\<rparr>)
           = Some r0"
  shows "\<exists>r. fst (createBlogHandler env st req conn) = Inr r \<and>
           (if length (pathname (url req)) > 1 \<and> endsWith (pathname (url req)) ''/''
            then r = Response_redirect
                       (href ((url req)\<lparr>pathname := butlast (pathname (url req))\<rparr>)) 307
            else terminal_response (chain_steps st req conn (handler env)) = Some r)"
proof (cases "length (pathname (url req)) > 1 \<and> endsWith (pathname (url req)) ''/''")
  case True
  then show ?thesis by (simp add: createBlogHandler_def Let_def slice_drop_last)
next
  case False
  let ?ctx = "\<lparr>state = blog_settings.truncate st, connInfo = conn\<rparr>"
  let ?ps = "map (\<lambda>mw. mw req ?ctx)
               (rev (case middlewares st of None \<Rightarrow> [] | Some ms \<Rightarrow> ms))"
  have steps: "chain_steps st req conn (handler env) = ?ps @ [handler env req ?ctx]"
    by (simp add: chain_steps_def Let_def)
  have "\<forall>p\<in>set ?ps. own_response p \<noteq> None \<or> delegates p"
    using assms(1) unfolding steps by simp
  from ctx_next_terminal_response [OF this assms(2)]
  obtain r where "terminal_response (chain_steps st req conn (handler env)) = Some r"
    and "fst (ctx_next (chain_steps st req conn (handler env))) = Inr r"
    unfolding steps by blast
  moreover have "createBlogHandler env st req conn = composeMiddlewares st req conn (handler env)"
    unfolding createBlogHandler_def Let_def using False by (rule if_not_P)
  ultimately show ?thesis using False by (auto simp: composeMiddlewares_fst)
qed

theorem one_terminal_response_witness:
  "fst (createBlogHandler test_env BLOG_SETTINGS (test_request ''/to_second'') CONN_INFO) =
     Inr \<lparr>status = 307, headers = [(''location'', ''/second'')], body = None\<rparr> \<and>
   fst (createBlogHandler test_env BLOG_SETTINGS (test_request ''/cat.png'') CONN_INFO) =
     Inr \<lparr>status = 404, headers = [], body = Some ''Not Found''\<rparr> \<and>
   fst (createBlogHandler test_env BLOG_SETTINGS (test_request ''/about/'') CONN_INFO) =
     Inr \<lparr>status = 307, headers = [(''location'', ''https://blog.deno.dev/about'')],
          body = None\<rparr>"
proof -
  let ?ctx = "\<lparr>state = blog_settings.truncate BLOG_SETTINGS, connInfo = CONN_INFO\<rparr>"
  have mws: "middlewares BLOG_SETTINGS = Some [redirects test_redirect_map]"
    by (simp add: BLOG_SETTINGS_def configureBlog_def)
  have steps: "chain_steps BLOG_SETTINGS req CONN_INFO (handler test_env) =
      [redirects test_redirect_map req ?ctx, handler test_env req ?ctx]" for req
    by (simp add: chain_steps_def Let_def mws)
  have a: "redirects test_redirect_map (test_request ''/to_second'') ?ctx =
      Return \<lparr>status = 307, headers = [(''location'', ''/second'')], body = None\<rparr>"
    by (simp add: redirects_def get_property_def test_request_def test_redirect_map_def
        startsWith_def Let_def httpTrim_def http_whitespace_def header_value_valid_def)
  have b: "delegates (redirects test_redirect_map (test_request ''/cat.png'') ?ctx)"
    by (intro redirects_delegates)
       (simp_all add: test_request_def test_redirect_map_def startsWith_def
          object_prototype_keys_def)
  have c: "delegates (redirects test_redirect_map (test_request ''/about/'') ?ctx)"
    by (intro redirects_delegates)
       (simp_all add: test_request_def test_redirect_map_def startsWith_def
          object_prototype_keys_def)
  have h: "handler test_env (test_request (CHR ''/'' # x # xs)) ?ctx =
      Return \<lparr>status = 404, headers = [], body = Some ''Not Found''\<rparr>" for x xs
    by (simp add: handler_def test_env_def test_request_def settle_def)
  have pass: "\<not> (length (pathname (url (test_request p))) > 1 \<and>
                    endsWith (pathname (url (test_request p))) ''/'')"
    if "p = ''/to_second'' \<or> p = ''/cat.png''" for p
    using that by (auto simp: test_request_def endsWith_def)
  have strip: "length (pathname (url (test_request ''/about/''))) > 1 \<and>
               endsWith (pathname (url (test_request ''/about/''))) ''/''"
    by (simp add: test_request_def endsWith_def)
  have inner: "own_response (handler test_env (test_request (CHR ''/'' # x # xs)) ?ctx) =
      Some \<lparr>status = 404, headers = [], body = Some ''Not Found''\<rparr>" for x xs
    by (simp add: h)
  have 1: "fst (createBlogHandler test_env BLOG_SETTINGS (test_request ''/to_second'') CONN_INFO) =
     Inr \<lparr>status = 307, headers = [(''location'', ''/second'')], body = None\<rparr>"
  proof -
    have "\<forall>p\<in>set (butlast (chain_steps BLOG_SETTINGS (test_request ''/to_second'') CONN_INFO
                  (handler test_env))). own_response p \<noteq> None \<or> delegates p"
      by (simp add: steps a)
    from one_terminal_response [OF this inner]
    obtain r where r: "fst (createBlogHandler test_env BLOG_SETTINGS (test_request ''/to_second'')
          CONN_INFO) = Inr r"
      and "terminal_response (chain_steps BLOG_SETTINGS (test_request ''/to_second'') CONN_INFO
             (handler test_env)) = Some r"
      using pass [of "''/to_second''"] by (auto split: if_splits)
    then show ?thesis by (simp add: steps a)
  qed
  have 2: "fst (createBlogHandler test_env BLOG_SETTINGS (test_request ''/cat.png'') CONN_INFO) =
     Inr \<lparr>status = 404, headers = [], body = Some ''Not Found''\<rparr>"
  proof -
    have "\<forall>p\<in>set (butlast (chain_steps BLOG_SETTINGS (test_request ''/cat.png'') CONN_INFO
                  (handler test_env))). own_response p \<noteq> None \<or> delegates p"
      by (simp add: steps b)
    from one_terminal_response [OF this inner]
    obtain r where r: "fst (createBlogHandler test_env BLOG_SETTINGS (test_request ''/cat.png'')
          CONN_INFO) = Inr r"
      and "terminal_response (chain_steps BLOG_SETTINGS (test_request ''/cat.png'') CONN_INFO
             (handler test_env)) = Some r"
      using pass [of "''/cat.png''"] by (auto split: if_splits)
    then show ?thesis by (simp add: steps delegates_no_own_response [OF b] h)
  qed
  have 3: "fst (createBlogHandler test_env BLOG_SETTINGS (test_request ''/about/'') CONN_INFO) =
     Inr \<lparr>status = 307, headers = [(''location'', ''https://blog.deno.dev/about'')],
          body = None\<rparr>"
  proof -
    have "\<forall>p\<in>set (butlast (chain_steps BLOG_SETTINGS (test_request ''/about/'') CONN_INFO
                  (handler test_env))). own_response p \<noteq> None \<or> delegates p"
      by (simp add: steps c)
    from one_terminal_response [OF this inner]
    obtain r where r: "fst (createBlogHandler test_env BLOG_SETTINGS (test_request ''/about/'')
          CONN_INFO) = Inr r"
      and "r = Response_redirect (href ((url (test_request ''/about/''))
                 \<lparr>pathname := butlast (pathname (url (test_request ''/about/'')))\<rparr>)) 307"
      using strip by (auto split: if_splits)
    then show ?thesis
      by (simp add: test_request_def Response_redirect_def href_def userinfo_def host_def)
  qed
  from 1 2 3 show ?thesis by blast
qed

end
